theory Spec2Isabelle
  imports Complex_Main "HOL-Library.Sublist"
begin

section \<open>The plant monitor of \<^verbatim>\<open>code.py\<close>\<close>

text \<open>
  \<^verbatim>\<open>code.py\<close> is one script: it sets the sensors, the display and the network up,
  connects to the broker, and then polls the clock for ever; once a minute it reads three
  sensors, converts the readings and publishes them on three feeds.

  The script is embedded as functions over an explicit state (the variables
  \<^verbatim>\<open>last_updated\<close> and \<^verbatim>\<open>plant_measurements\<close>, and the list of the calls
  made so far to the outside world). What the outside world answers to each call (the
  clock, the sensors, the broker client, the WiFi manager) is an input of the model.
\<close>

subsection \<open>Float arithmetic\<close>

text \<open>
  The script computes with the interpreter's \<^verbatim>\<open>float\<close>. Its format and rounding
  are the interpreter's and are not written in \<^verbatim>\<open>code.py\<close>, so the arithmetic is
  a parameter: a type \<open>'f\<close> of floats and the operations the script uses on it.
  \<^item> \<open>fadd\<close>, \<open>fsub\<close>, \<open>fmul\<close>, \<open>fdiv\<close>: \<^verbatim>\<open>+\<close>, \<^verbatim>\<open>-\<close>, \<^verbatim>\<open>*\<close>,
    \<^verbatim>\<open>/\<close> on two floats. The script divides by the literals \<^verbatim>\<open>10.764\<close> and
    \<^verbatim>\<open>20\<close> only, so the \<^verbatim>\<open>ZeroDivisionError\<close> of a zero divisor has no
    branch here;
  \<^item> \<open>fge\<close>: \<^verbatim>\<open>>=\<close>;
  \<^item> \<open>float_of_int\<close>: the conversion of an \<^verbatim>\<open>int\<close> operand that meets a float
    (\<^verbatim>\<open>+ 32\<close>, \<^verbatim>\<open>- 60\<close>, \<^verbatim>\<open>>= 60\<close>);
  \<^item> \<open>int_truediv\<close>: \<^verbatim>\<open>/\<close> on two ints, which gives a float;
  \<^item> \<open>decimal m k\<close>: the float read from a decimal literal with the digits \<open>m\<close>, the
    last \<open>k\<close> of them after the point (\<^verbatim>\<open>1.80\<close> is \<open>decimal 180 2\<close>).
\<close>

record 'f arith =
  fadd :: "'f \<Rightarrow> 'f \<Rightarrow> 'f"
  fsub :: "'f \<Rightarrow> 'f \<Rightarrow> 'f"
  fmul :: "'f \<Rightarrow> 'f \<Rightarrow> 'f"
  fdiv :: "'f \<Rightarrow> 'f \<Rightarrow> 'f"
  fge :: "'f \<Rightarrow> 'f \<Rightarrow> bool"
  float_of_int :: "int \<Rightarrow> 'f"
  int_truediv :: "int \<Rightarrow> int \<Rightarrow> 'f"
  decimal :: "int \<Rightarrow> nat \<Rightarrow> 'f"

text \<open>
  Exact arithmetic: floats as real numbers, no rounding. The numbers of the scenarios
  (\<open>71.6\<close>, \<open>50.0\<close>, 59 and 60 seconds) are computed in it.
\<close>

definition exact :: "real arith" where
  "exact = \<lparr> fadd = (\<lambda>x y. x + y), fsub = (\<lambda>x y. x - y),
             fmul = (\<lambda>x y. x * y), fdiv = (\<lambda>x y. x / y),
             fge = (\<lambda>x y. x \<ge> y),
             float_of_int = real_of_int,
             int_truediv = (\<lambda>a b. real_of_int a / real_of_int b),
             decimal = (\<lambda>m k. real_of_int m / 10 ^ k) \<rparr>"

subsection \<open>The converters\<close>

text \<open>\<^verbatim>\<open>def cel_to_fahr(celsius): return celsius * 1.80 + 32\<close>\<close>

definition cel_to_fahr :: "'f arith \<Rightarrow> 'f \<Rightarrow> 'f" where
  "cel_to_fahr A celsius = fadd A (fmul A celsius (decimal A 180 2)) (float_of_int A 32)"

text \<open>\<^verbatim>\<open>def lux_to_footcandle(lux): return lux / 10.764\<close>\<close>

definition lux_to_footcandle :: "'f arith \<Rightarrow> 'f \<Rightarrow> 'f" where
  "lux_to_footcandle A lux = fdiv A lux (decimal A 10764 3)"

subsection \<open>Exceptions and calls\<close>

text \<open>
  An exception is a value. \<open>OSError msg\<close> stands for an instance of \<^verbatim>\<open>OSError\<close> or of
  one of its subclasses, which is what \<^verbatim>\<open>except OSError\<close> catches; \<open>msg\<close> is its
  \<^verbatim>\<open>str\<close>. \<open>OtherException cls msg\<close> is an instance of any class outside
  \<^verbatim>\<open>OSError\<close>.
\<close>

datatype pyexc = OSError string | KeyError string | OtherException string string


text \<open>The calls the script makes to the outside world, in the order it makes them.\<close>

datatype 'f event =
    Print string
  | WifiConnect
  | IoConnect
  | ReadLux
  | MoistureRead
  | GetTemp
  | Publish string 'f
  | WifiReset

record 'f state =
  last_updated :: 'f
  plant_measurements :: "string \<rightharpoonup> 'f"
  trace :: "'f event list"

text \<open>
  A statement ends normally or raises; either way the state it leaves is kept, since an
  enclosing \<^verbatim>\<open>except\<close> goes on from it.
\<close>

datatype 'f result = Normal "'f state" | Raised pyexc "'f state"

fun state_of :: "'f result \<Rightarrow> 'f state" where
  "state_of (Normal s) = s"
| "state_of (Raised e s) = s"

definition call :: "'f event \<Rightarrow> 'f state \<Rightarrow> 'f state" where
  "call ev st = st\<lparr>trace := trace st @ [ev]\<rparr>"

text \<open>\<^verbatim>\<open>plant_measurements[key] = v\<close> and \<^verbatim>\<open>plant_measurements[key]\<close>.\<close>

definition setitem :: "string \<Rightarrow> 'f \<Rightarrow> 'f state \<Rightarrow> 'f state" where
  "setitem key v st = st\<lparr>plant_measurements := (plant_measurements st)(key \<mapsto> v)\<rparr>"

definition getitem :: "'f state \<Rightarrow> string \<Rightarrow> pyexc + 'f" where
  "getitem st key = (case plant_measurements st key of None \<Rightarrow> Inl (KeyError key) | Some v \<Rightarrow> Inr v)"

subsection \<open>One iteration of \<^verbatim>\<open>while True\<close>\<close>

text \<open>
  What the outside world answers during one iteration: the clock at the interval check
  (line 201), the three sensor reads (a value, or the exception the driver raises), each
  feed's publish and \<^verbatim>\<open>wifi.reset()\<close> (\<open>None\<close> when the call returns, the exception
  otherwise), and the clock at line 225.
\<close>

record 'f env =
  monotonic_check :: 'f
  light_sensor_lux :: "pyexc + 'f"
  soil_moisture_read :: "pyexc + int"
  soil_get_temp :: "pyexc + 'f"
  io_publish :: "string \<Rightarrow> pyexc option"
  wifi_reset :: "pyexc option"
  monotonic_end :: 'f

text \<open>
  Lines 203 to 206:
  \<^verbatim>\<open>
  print("\nTaking measurements...")
  plant_measurements['sunlight'] = lux_to_footcandle(light_sensor.lux)
  plant_measurements['moisture'] = soil_sensor.moisture_read()/20
  plant_measurements['temperature'] = cel_to_fahr(soil_sensor.get_temp())
  \<close>
\<close>

definition take_measurements :: "'f arith \<Rightarrow> 'f env \<Rightarrow> 'f state \<Rightarrow> 'f result" where
  "take_measurements A env st =
    (let s0 = call ReadLux (call (Print (CHR 0x0A # ''Taking measurements...'')) st) in
     case light_sensor_lux env of
       Inl e \<Rightarrow> Raised e s0
     | Inr l \<Rightarrow>
        (let s1 = call MoistureRead (setitem ''sunlight'' (lux_to_footcandle A l) s0) in
         case soil_moisture_read env of
           Inl e \<Rightarrow> Raised e s1
         | Inr m \<Rightarrow>
            (let s2 = call GetTemp (setitem ''moisture'' (int_truediv A m 20) s1) in
             case soil_get_temp env of
               Inl e \<Rightarrow> Raised e s2
             | Inr c \<Rightarrow> Normal (setitem ''temperature'' (cel_to_fahr A c) s2))))"

text \<open>
  \<^verbatim>\<open>io.publish(feed, plant_measurements[key])\<close>: the argument is looked up, then the
  call is made.
\<close>

definition publish :: "'f env \<Rightarrow> string \<Rightarrow> string \<Rightarrow> 'f state \<Rightarrow> 'f result" where
  "publish env feed key st =
    (case getitem st key of
       Inl e \<Rightarrow> Raised e st
     | Inr v \<Rightarrow>
        (let s = call (Publish feed v) st in
         case io_publish env feed of Some e \<Rightarrow> Raised e s | None \<Rightarrow> Normal s))"

text \<open>
  The body of the \<^verbatim>\<open>try\<close>, lines 214 to 218:
  \<^verbatim>\<open>
  print("\nSending data...")
  io.publish("sun", plant_measurements['sunlight'])
  io.publish("spruce.moisture", (plant_measurements['moisture']))
  io.publish("spruce.temperature", plant_measurements['temperature'])
  print("Measurement data sent!")
  \<close>
\<close>

definition send_measurements :: "'f env \<Rightarrow> 'f state \<Rightarrow> 'f result" where
  "send_measurements env st =
    (case publish env ''sun'' ''sunlight'' (call (Print (CHR 0x0A # ''Sending data...'')) st) of
       Raised e s \<Rightarrow> Raised e s
     | Normal s1 \<Rightarrow>
        (case publish env ''spruce.moisture'' ''moisture'' s1 of
           Raised e s \<Rightarrow> Raised e s
         | Normal s2 \<Rightarrow>
            (case publish env ''spruce.temperature'' ''temperature'' s2 of
               Raised e s \<Rightarrow> Raised e s
             | Normal s3 \<Rightarrow> Normal (call (Print ''Measurement data sent!'') s3))))"

text \<open>
  The handler, lines 220 to 223:
  \<^verbatim>\<open>
  except OSError as e:
      print(f"Failed to get/post data, retrying...\n {e}")
      wifi.reset()
      continue
  \<close>
  \<^verbatim>\<open>continue\<close> ends the iteration normally; an exception of \<^verbatim>\<open>wifi.reset()\<close> is not
  caught.
\<close>

definition except_OSError :: "'f env \<Rightarrow> string \<Rightarrow> 'f state \<Rightarrow> 'f result" where
  "except_OSError env msg st =
    (let s = call WifiReset
               (call (Print (''Failed to get/post data, retrying...'' @ CHR 0x0A # '' '' @ msg)) st) in
     case wifi_reset env of Some e \<Rightarrow> Raised e s | None \<Rightarrow> Normal s)"

text \<open>
  The body of the loop, lines 201 to 225; \<open>interval_check\<close> is the condition of its
  \<^verbatim>\<open>if\<close>:
  \<^verbatim>\<open>
  if time.monotonic() - last_updated >= 60:
      <take measurements>
      try:
          <send measurements>
      except OSError as e:
          <handler>
      last_updated = time.monotonic()
  \<close>
\<close>

definition interval_check :: "'f arith \<Rightarrow> 'f env \<Rightarrow> 'f state \<Rightarrow> bool" where
  "interval_check A env st =
     fge A (fsub A (monotonic_check env) (last_updated st)) (float_of_int A 60)"

definition loop_body :: "'f arith \<Rightarrow> 'f env \<Rightarrow> 'f state \<Rightarrow> 'f result" where
  "loop_body A env st =
    (if interval_check A env st then
       (case take_measurements A env st of
          Raised e s \<Rightarrow> Raised e s
        | Normal s1 \<Rightarrow>
           (case send_measurements env s1 of
              Raised (OSError msg) s2 \<Rightarrow> except_OSError env msg s2
            | Raised e s2 \<Rightarrow> Raised e s2
            | Normal s2 \<Rightarrow> Normal (s2\<lparr>last_updated := monotonic_end env\<rparr>)))
     else Normal st)"


text \<open>The calls of one iteration: what it appended to the trace.\<close>

definition cycle_calls :: "'f arith \<Rightarrow> 'f env \<Rightarrow> 'f state \<Rightarrow> 'f event list" where
  "cycle_calls A env st = drop (length (trace st)) (trace (state_of (loop_body A env st)))"

text \<open>The feeds and values of the \<^verbatim>\<open>io.publish\<close> calls in a list of calls.\<close>

fun publishes :: "'f event list \<Rightarrow> (string \<times> 'f) list" where
  "publishes [] = []"
| "publishes (Publish feed v # evs) = (feed, v) # publishes evs"
| "publishes (_ # evs) = publishes evs"

subsection \<open>Startup\<close>

text \<open>
  Lines 163 to 197, after the sensors and the display are set up:
  \<^verbatim>\<open>
  print("Connecting to WiFi...")
  wifi.connect()
  print("Connected!")
  ...
  print("Connecting to Adafruit IO...")
  io.connect()
  ...
  plant_measurements = {'sunlight': 0.0, 'moisture': 0.0, 'temperature': 0.0}
  last_updated = time.monotonic() - 60
  \<close>
  The lines left out build the MQTT client and register the callbacks. A run of the
  script is either still in the loop, with its state, or has ended with an uncaught
  exception after the calls it made.
\<close>

record 'f boot_env =
  wifi_connect :: "pyexc option"
  io_connect :: "pyexc option"
  monotonic_start :: 'f





subsection \<open>Concrete runs\<close>

text \<open>
  Scenario 1 of the specification in exact arithmetic: the sensors answer 500 lux, a raw
  moisture of 1000 and 22 degrees Celsius, every call returns, the clock reads 100 at the
  interval check and 103 at the end of the cycle. \<open>scenario_state\<close> is the state after a
  startup at clock 100; \<open>moisture_fails\<close> is scenario 4, where the publish on
  \<^verbatim>\<open>spruce.moisture\<close> raises an \<^verbatim>\<open>OSError\<close>.
\<close>

definition scenario_env :: "real env" where
  "scenario_env =
     \<lparr> monotonic_check = 100, light_sensor_lux = Inr 500, soil_moisture_read = Inr 1000,
       soil_get_temp = Inr 22, io_publish = (\<lambda>feed. None), wifi_reset = None,
       monotonic_end = 103 \<rparr>"

definition scenario_boot :: "real boot_env" where
  "scenario_boot = \<lparr> wifi_connect = None, io_connect = None, monotonic_start = 100 \<rparr>"

definition scenario_state :: "real state" where
  "scenario_state =
     \<lparr> last_updated = 40,
       plant_measurements = [''sunlight'' \<mapsto> 0, ''moisture'' \<mapsto> 0, ''temperature'' \<mapsto> 0],
       trace = [Print ''Connecting to WiFi...'', WifiConnect, Print ''Connected!'',
                Print ''Connecting to Adafruit IO...'', IoConnect] \<rparr>"

definition moisture_fails :: "real env" where
  "moisture_fails =
     scenario_env\<lparr>io_publish :=
       (\<lambda>feed. if feed = ''spruce.moisture'' then Some (OSError ''[Errno 116] ETIMEDOUT'') else None)\<rparr>"


section \<open>Properties\<close>

subsection \<open>Reading the state after a step\<close>

lemma call_simps [simp]:
  "trace (call ev st) = trace st @ [ev]"
  "last_updated (call ev st) = last_updated st"
  "plant_measurements (call ev st) = plant_measurements st"
  by (simp_all add: call_def)

lemma setitem_simps [simp]:
  "trace (setitem k v st) = trace st"
  "last_updated (setitem k v st) = last_updated st"
  "plant_measurements (setitem k v st) = (plant_measurements st)(k \<mapsto> v)"
  by (simp_all add: setitem_def)

subsection \<open>The paths of an iteration\<close>

text \<open>
  The sensor reads end at the first exception, or leave the three converted values in
  \<^verbatim>\<open>plant_measurements\<close>.
\<close>

lemma take_measurements_cases [case_names lux_raised moisture_raised temp_raised measured]:
  obtains
    (lux_raised) e s where
      "light_sensor_lux env = Inl e" "take_measurements A env st = Raised e s"
      "trace s = trace st @ [Print (CHR 0x0A # ''Taking measurements...''), ReadLux]"
      "last_updated s = last_updated st"
      "plant_measurements s ''moisture'' = plant_measurements st ''moisture''"
  | (moisture_raised) l e s where
      "light_sensor_lux env = Inr l" "soil_moisture_read env = Inl e"
      "take_measurements A env st = Raised e s"
      "trace s = trace st @ [Print (CHR 0x0A # ''Taking measurements...''), ReadLux, MoistureRead]"
      "last_updated s = last_updated st"
      "plant_measurements s ''moisture'' = plant_measurements st ''moisture''"
  | (temp_raised) l m e s where
      "light_sensor_lux env = Inr l" "soil_moisture_read env = Inr m" "soil_get_temp env = Inl e"
      "take_measurements A env st = Raised e s"
      "trace s = trace st @ [Print (CHR 0x0A # ''Taking measurements...''), ReadLux, MoistureRead,
                             GetTemp]"
      "last_updated s = last_updated st"
      "plant_measurements s ''moisture'' = Some (int_truediv A m 20)"
  | (measured) l m c s where
      "light_sensor_lux env = Inr l" "soil_moisture_read env = Inr m" "soil_get_temp env = Inr c"
      "take_measurements A env st = Normal s"
      "trace s = trace st @ [Print (CHR 0x0A # ''Taking measurements...''), ReadLux, MoistureRead,
                             GetTemp]"
      "last_updated s = last_updated st"
      "plant_measurements s ''sunlight'' = Some (lux_to_footcandle A l)"
      "plant_measurements s ''moisture'' = Some (int_truediv A m 20)"
      "plant_measurements s ''temperature'' = Some (cel_to_fahr A c)"
proof (cases "light_sensor_lux env")
  case (Inl e)
  then show thesis
    by (intro lux_raised [of e "state_of (take_measurements A env st)"])
       (simp_all add: take_measurements_def Let_def)
next
  case lux: (Inr l)
  show thesis
  proof (cases "soil_moisture_read env")
    case (Inl e)
    with lux show thesis
      by (intro moisture_raised [of l e "state_of (take_measurements A env st)"])
         (simp_all add: take_measurements_def Let_def)
  next
    case moisture: (Inr m)
    show thesis
    proof (cases "soil_get_temp env")
      case (Inl e)
      with lux moisture show thesis
        by (intro temp_raised [of l m e "state_of (take_measurements A env st)"])
           (simp_all add: take_measurements_def Let_def)
    next
      case (Inr c)
      with lux moisture show thesis
        by (intro measured [of l m c "state_of (take_measurements A env st)"])
           (simp_all add: take_measurements_def Let_def)
    qed
  qed
qed

text \<open>
  With the three values in the dictionary, the \<^verbatim>\<open>try\<close> body ends at the first
  publish that raises, or makes the three calls.
\<close>

lemma publish_found:
  "plant_measurements st key = Some v \<Longrightarrow>
   publish env feed key st =
     (case io_publish env feed of
        None \<Rightarrow> Normal (call (Publish feed v) st)
      | Some e \<Rightarrow> Raised e (call (Publish feed v) st))"
  by (simp add: publish_def getitem_def Let_def)

lemma send_measurements_cases [consumes 3, case_names sun_raised moisture_raised temp_raised sent]:
  assumes "plant_measurements s ''sunlight'' = Some a" "plant_measurements s ''moisture'' = Some b"
    "plant_measurements s ''temperature'' = Some c"
  obtains
    (sun_raised) e s' where
      "io_publish env ''sun'' = Some e" "send_measurements env s = Raised e s'"
      "trace s' = trace s @ [Print (CHR 0x0A # ''Sending data...''), Publish ''sun'' a]"
      "last_updated s' = last_updated s" "plant_measurements s' = plant_measurements s"
  | (moisture_raised) e s' where
      "io_publish env ''sun'' = None" "io_publish env ''spruce.moisture'' = Some e"
      "send_measurements env s = Raised e s'"
      "trace s' = trace s @ [Print (CHR 0x0A # ''Sending data...''), Publish ''sun'' a,
                             Publish ''spruce.moisture'' b]"
      "last_updated s' = last_updated s" "plant_measurements s' = plant_measurements s"
  | (temp_raised) e s' where
      "io_publish env ''sun'' = None" "io_publish env ''spruce.moisture'' = None"
      "io_publish env ''spruce.temperature'' = Some e"
      "send_measurements env s = Raised e s'"
      "trace s' = trace s @ [Print (CHR 0x0A # ''Sending data...''), Publish ''sun'' a,
                             Publish ''spruce.moisture'' b, Publish ''spruce.temperature'' c]"
      "last_updated s' = last_updated s" "plant_measurements s' = plant_measurements s"
  | (sent) s' where
      "io_publish env ''sun'' = None" "io_publish env ''spruce.moisture'' = None"
      "io_publish env ''spruce.temperature'' = None"
      "send_measurements env s = Normal s'"
      "trace s' = trace s @ [Print (CHR 0x0A # ''Sending data...''), Publish ''sun'' a,
                             Publish ''spruce.moisture'' b, Publish ''spruce.temperature'' c,
                             Print ''Measurement data sent!'']"
      "last_updated s' = last_updated s" "plant_measurements s' = plant_measurements s"
proof (cases "io_publish env ''sun''")
  case (Some e)
  with assms show thesis
    by (intro sun_raised [of e "state_of (send_measurements env s)"])
       (simp_all add: send_measurements_def publish_found)
next
  case sun: None
  show thesis
  proof (cases "io_publish env ''spruce.moisture''")
    case (Some e)
    with assms sun show thesis
      by (intro moisture_raised [of e "state_of (send_measurements env s)"])
         (simp_all add: send_measurements_def publish_found)
  next
    case moisture: None
    show thesis
    proof (cases "io_publish env ''spruce.temperature''")
      case (Some e)
      with assms sun moisture show thesis
        by (intro temp_raised [of e "state_of (send_measurements env s)"])
           (simp_all add: send_measurements_def publish_found)
    next
      case None
      with assms sun moisture show thesis
        by (intro sent [of "state_of (send_measurements env s)"])
           (simp_all add: send_measurements_def publish_found)
    qed
  qed
qed

text \<open>An iteration whose interval check fails changes nothing and calls nothing.\<close>

lemma idle_iteration: "\<not> interval_check A env st \<Longrightarrow> loop_body A env st = Normal st"
  by (simp add: loop_body_def)

lemma idle_no_calls: "\<not> interval_check A env st \<Longrightarrow> cycle_calls A env st = []"
  by (simp add: cycle_calls_def idle_iteration)

text \<open>What the handler adds to the calls, and how the iteration ends, when a publish raised \<open>e\<close>.\<close>

lemma raised_in_try:
  assumes "interval_check A env st" "take_measurements A env st = Normal s1"
    and "send_measurements env s1 = Raised e s2"
  shows "loop_body A env st =
      (case e of
         OSError msg \<Rightarrow>
           (case wifi_reset env of
              None \<Rightarrow> Normal (state_of (loop_body A env st))
            | Some e' \<Rightarrow> Raised e' (state_of (loop_body A env st)))
       | _ \<Rightarrow> Raised e (state_of (loop_body A env st)))"
    and "trace (state_of (loop_body A env st)) = trace s2 @
      (case e of
         OSError msg \<Rightarrow>
           [Print (''Failed to get/post data, retrying...'' @ CHR 0x0A # '' '' @ msg), WifiReset]
       | _ \<Rightarrow> [])"
    and "last_updated (state_of (loop_body A env st)) = last_updated s2"
    and "plant_measurements (state_of (loop_body A env st)) = plant_measurements s2"
  using assms
  by (cases e; cases "wifi_reset env"; simp add: loop_body_def except_OSError_def Let_def)+

lemma cycle_cases [case_names idle lux_error moisture_error temp_error
    sun_publish_raised moisture_publish_raised temp_publish_raised published]:
  obtains
    (idle) "\<not> interval_check A env st" "loop_body A env st = Normal st"
      "cycle_calls A env st = []"
  | (lux_error) e s where
      "interval_check A env st" "light_sensor_lux env = Inl e"
      "loop_body A env st = Raised e s"
      "cycle_calls A env st = [Print (CHR 0x0A # ''Taking measurements...''), ReadLux]"
      "last_updated s = last_updated st"
      "trace s = trace st @ cycle_calls A env st"
  | (moisture_error) l e s where
      "interval_check A env st" "light_sensor_lux env = Inr l" "soil_moisture_read env = Inl e"
      "loop_body A env st = Raised e s"
      "cycle_calls A env st =
         [Print (CHR 0x0A # ''Taking measurements...''), ReadLux, MoistureRead]"
      "last_updated s = last_updated st"
      "trace s = trace st @ cycle_calls A env st"
  | (temp_error) l m e s where
      "interval_check A env st" "light_sensor_lux env = Inr l" "soil_moisture_read env = Inr m"
      "soil_get_temp env = Inl e"
      "loop_body A env st = Raised e s"
      "cycle_calls A env st =
         [Print (CHR 0x0A # ''Taking measurements...''), ReadLux, MoistureRead, GetTemp]"
      "last_updated s = last_updated st"
      "plant_measurements s ''moisture'' = Some (int_truediv A m 20)"
      "trace s = trace st @ cycle_calls A env st"
  | (sun_publish_raised) l m c e s where
      "interval_check A env st" "light_sensor_lux env = Inr l" "soil_moisture_read env = Inr m"
      "soil_get_temp env = Inr c" "io_publish env ''sun'' = Some e"
      "loop_body A env st =
         (case e of
            OSError msg \<Rightarrow> (case wifi_reset env of None \<Rightarrow> Normal s | Some e' \<Rightarrow> Raised e' s)
          | _ \<Rightarrow> Raised e s)"
      "cycle_calls A env st =
         [Print (CHR 0x0A # ''Taking measurements...''), ReadLux, MoistureRead, GetTemp,
          Print (CHR 0x0A # ''Sending data...''), Publish ''sun'' (lux_to_footcandle A l)] @
         (case e of
            OSError msg \<Rightarrow>
              [Print (''Failed to get/post data, retrying...'' @ CHR 0x0A # '' '' @ msg),
               WifiReset]
          | _ \<Rightarrow> [])"
      "last_updated s = last_updated st"
      "plant_measurements s ''moisture'' = Some (int_truediv A m 20)"
      "trace s = trace st @ cycle_calls A env st"
  | (moisture_publish_raised) l m c e s where
      "interval_check A env st" "light_sensor_lux env = Inr l" "soil_moisture_read env = Inr m"
      "soil_get_temp env = Inr c" "io_publish env ''sun'' = None"
      "io_publish env ''spruce.moisture'' = Some e"
      "loop_body A env st =
         (case e of
            OSError msg \<Rightarrow> (case wifi_reset env of None \<Rightarrow> Normal s | Some e' \<Rightarrow> Raised e' s)
          | _ \<Rightarrow> Raised e s)"
      "cycle_calls A env st =
         [Print (CHR 0x0A # ''Taking measurements...''), ReadLux, MoistureRead, GetTemp,
          Print (CHR 0x0A # ''Sending data...''), Publish ''sun'' (lux_to_footcandle A l),
          Publish ''spruce.moisture'' (int_truediv A m 20)] @
         (case e of
            OSError msg \<Rightarrow>
              [Print (''Failed to get/post data, retrying...'' @ CHR 0x0A # '' '' @ msg),
               WifiReset]
          | _ \<Rightarrow> [])"
      "last_updated s = last_updated st"
      "plant_measurements s ''moisture'' = Some (int_truediv A m 20)"
      "trace s = trace st @ cycle_calls A env st"
  | (temp_publish_raised) l m c e s where
      "interval_check A env st" "light_sensor_lux env = Inr l" "soil_moisture_read env = Inr m"
      "soil_get_temp env = Inr c" "io_publish env ''sun'' = None"
      "io_publish env ''spruce.moisture'' = None" "io_publish env ''spruce.temperature'' = Some e"
      "loop_body A env st =
         (case e of
            OSError msg \<Rightarrow> (case wifi_reset env of None \<Rightarrow> Normal s | Some e' \<Rightarrow> Raised e' s)
          | _ \<Rightarrow> Raised e s)"
      "cycle_calls A env st =
         [Print (CHR 0x0A # ''Taking measurements...''), ReadLux, MoistureRead, GetTemp,
          Print (CHR 0x0A # ''Sending data...''), Publish ''sun'' (lux_to_footcandle A l),
          Publish ''spruce.moisture'' (int_truediv A m 20),
          Publish ''spruce.temperature'' (cel_to_fahr A c)] @
         (case e of
            OSError msg \<Rightarrow>
              [Print (''Failed to get/post data, retrying...'' @ CHR 0x0A # '' '' @ msg),
               WifiReset]
          | _ \<Rightarrow> [])"
      "last_updated s = last_updated st"
      "plant_measurements s ''moisture'' = Some (int_truediv A m 20)"
      "trace s = trace st @ cycle_calls A env st"
  | (published) l m c s where
      "interval_check A env st" "light_sensor_lux env = Inr l" "soil_moisture_read env = Inr m"
      "soil_get_temp env = Inr c" "io_publish env ''sun'' = None"
      "io_publish env ''spruce.moisture'' = None" "io_publish env ''spruce.temperature'' = None"
      "loop_body A env st = Normal s"
      "cycle_calls A env st =
         [Print (CHR 0x0A # ''Taking measurements...''), ReadLux, MoistureRead, GetTemp,
          Print (CHR 0x0A # ''Sending data...''), Publish ''sun'' (lux_to_footcandle A l),
          Publish ''spruce.moisture'' (int_truediv A m 20),
          Publish ''spruce.temperature'' (cel_to_fahr A c), Print ''Measurement data sent!'']"
      "last_updated s = monotonic_end env"
      "plant_measurements s ''moisture'' = Some (int_truediv A m 20)"
      "trace s = trace st @ cycle_calls A env st"
proof (cases "interval_check A env st")
  case False
  then show thesis by (intro idle) (simp_all add: idle_iteration idle_no_calls)
next
  case check: True
  show thesis
  proof (cases A env st rule: take_measurements_cases)
    case (lux_raised e s)
    with check show thesis
      by (intro lux_error [of e s]) (simp_all add: loop_body_def cycle_calls_def)
  next
    case (moisture_raised l e s)
    with check show thesis
      by (intro moisture_error [of l e s]) (simp_all add: loop_body_def cycle_calls_def)
  next
    case (temp_raised l m e s)
    with check show thesis
      by (intro temp_error [of l m e s]) (simp_all add: loop_body_def cycle_calls_def)
  next
    case (measured l m c s1)
    note sensors = measured(1-3) and s1 = measured(4-6)
    from measured(7-9) show thesis
    proof (cases rule: send_measurements_cases [where env = env])
      case (sun_raised e s2)
      note h = raised_in_try [OF check s1(1) sun_raised(2)]
      from check sensors sun_raised s1 h show thesis
        by (intro sun_publish_raised [of l m c e "state_of (loop_body A env st)"])
           (simp_all add: cycle_calls_def measured(8))
    next
      case (moisture_raised e s2)
      note h = raised_in_try [OF check s1(1) moisture_raised(3)]
      from check sensors moisture_raised s1 h show thesis
        by (intro moisture_publish_raised [of l m c e "state_of (loop_body A env st)"])
           (simp_all add: cycle_calls_def measured(8))
    next
      case (temp_raised e s2)
      note h = raised_in_try [OF check s1(1) temp_raised(4)]
      from check sensors temp_raised s1 h show thesis
        by (intro temp_publish_raised [of l m c e "state_of (loop_body A env st)"])
           (simp_all add: cycle_calls_def measured(8))
    next
      case (sent s2)
      from check sensors sent s1 show thesis
        by (intro published [of l m c "s2\<lparr>last_updated := monotonic_end env\<rparr>"])
           (simp_all add: cycle_calls_def loop_body_def measured(8))
    qed
  qed
qed


lemmas scenario_defs = scenario_env_def scenario_state_def scenario_boot_def moisture_fails_def
  exact_def interval_check_def cel_to_fahr_def lux_to_footcandle_def

lemmas body_defs = loop_body_def take_measurements_def send_measurements_def publish_def
  except_OSError_def getitem_def Let_def

subsection \<open>The interval check\<close>

lemma interval_check_exact:
  "interval_check exact env st \<longleftrightarrow> monotonic_check env - last_updated st \<ge> 60"
  by (simp add: interval_check_def exact_def)

text \<open>The light sensor is read in an iteration exactly when the check passes.\<close>

lemma enters_iff: "ReadLux \<in> set (cycle_calls A env st) \<longleftrightarrow> interval_check A env st"
  by (cases A env st rule: cycle_cases) simp_all

lemma sun_attempted:
  assumes "interval_check A env st"
    and "light_sensor_lux env = Inr l" "soil_moisture_read env = Inr m" "soil_get_temp env = Inr c"
  shows "Publish ''sun'' (lux_to_footcandle A l) \<in> set (cycle_calls A env st)"
  using assms by (cases A env st rule: cycle_cases) simp_all

text \<open>
  When the third publish was made and returned, the iteration ends normally and
  \<^verbatim>\<open>last_updated\<close> holds the clock read at line 225.
\<close>

lemma after_success:
  assumes "Publish ''spruce.temperature'' v \<in> set (cycle_calls A env st)"
    and "io_publish env ''spruce.temperature'' = None"
  shows "\<exists>s. loop_body A env st = Normal s \<and> last_updated s = monotonic_end env"
  using assms by (cases A env st rule: cycle_cases) (auto split: pyexc.splits)

subsection \<open>A failed publish\<close>

text \<open>
  Claim C1. In every cycle in which the publish on \<^verbatim>\<open>spruce.moisture\<close> is made and
  raises an \<^verbatim>\<open>OSError\<close>, nothing is published on \<^verbatim>\<open>spruce.temperature\<close>,
  \<^verbatim>\<open>wifi.reset()\<close> is called exactly once, and \<^verbatim>\<open>last_updated\<close> keeps the value it
  had before the cycle.
\<close>

theorem moisture_publish_OSError:
  assumes "Publish ''spruce.moisture'' v \<in> set (cycle_calls A env st)"
    and "io_publish env ''spruce.moisture'' = Some (OSError msg)"
  shows "''spruce.temperature'' \<notin> fst ` set (publishes (cycle_calls A env st))
     \<and> count_list (cycle_calls A env st) WifiReset = 1
     \<and> last_updated (state_of (loop_body A env st)) = last_updated st"
  using assms by (cases A env st rule: cycle_cases) (auto split: pyexc.splits option.splits)

theorem moisture_publish_OSError_witness:
  "Publish ''spruce.moisture'' 50 \<in> set (cycle_calls exact moisture_fails scenario_state)
   \<and> io_publish moisture_fails ''spruce.moisture'' = Some (OSError ''[Errno 116] ETIMEDOUT'')
   \<and> ''spruce.temperature'' \<notin> fst ` set (publishes (cycle_calls exact moisture_fails scenario_state))
   \<and> count_list (cycle_calls exact moisture_fails scenario_state) WifiReset = 1
   \<and> last_updated (state_of (loop_body exact moisture_fails scenario_state)) = 40"
proof -
  have made: "Publish ''spruce.moisture'' 50 \<in> set (cycle_calls exact moisture_fails scenario_state)"
    by (simp add: cycle_calls_def body_defs scenario_defs)
  have raised: "io_publish moisture_fails ''spruce.moisture'' = Some (OSError ''[Errno 116] ETIMEDOUT'')"
    by (simp add: scenario_defs)
  have "last_updated scenario_state = 40"
    by (simp add: scenario_defs)
  with moisture_publish_OSError [OF made raised] made raised show ?thesis
    by simp
qed

subsection \<open>The timestamp of a successful cycle\<close>

text \<open>
  Claim C2, as the specification states it: after a cycle whose three publishes succeed,
  \<^verbatim>\<open>last_updated\<close> is the clock value that the interval check read. It fails: in
  scenario 1 the check reads 100, the three publishes return, and \<^verbatim>\<open>last_updated\<close>
  becomes 103, the value of the second call of \<^verbatim>\<open>time.monotonic()\<close>, at line 225.
\<close>

theorem last_updated_is_start_counterexample:
  "Publish ''spruce.temperature'' 71.6 \<in> set (cycle_calls exact scenario_env scenario_state)
   \<and> io_publish scenario_env ''spruce.temperature'' = None
   \<and> monotonic_check scenario_env = 100
   \<and> last_updated (state_of (loop_body exact scenario_env scenario_state)) = 103
   \<and> last_updated (state_of (loop_body exact scenario_env scenario_state))
       \<noteq> monotonic_check scenario_env"
  by (simp add: cycle_calls_def body_defs scenario_defs)

text \<open>
  Claim C2, amended. After every cycle whose three publishes succeed (the third publish
  was made and returned), the iteration ends normally and \<^verbatim>\<open>last_updated\<close> is the
  clock value read after the last publish, at the end of the cycle.
\<close>

theorem last_updated_is_end_clock:
  assumes "Publish ''spruce.temperature'' v \<in> set (cycle_calls A env st)"
    and "io_publish env ''spruce.temperature'' = None"
  shows "\<exists>s. loop_body A env st = Normal s \<and> last_updated s = monotonic_end env
     \<and> map fst (publishes (cycle_calls A env st))
          = [''sun'', ''spruce.moisture'', ''spruce.temperature'']"
  using assms by (cases A env st rule: cycle_cases) (auto split: pyexc.splits)

theorem last_updated_is_end_clock_witness:
  "Publish ''spruce.temperature'' 71.6 \<in> set (cycle_calls exact scenario_env scenario_state)
   \<and> io_publish scenario_env ''spruce.temperature'' = None
   \<and> (\<exists>s. loop_body exact scenario_env scenario_state = Normal s \<and> last_updated s = 103
         \<and> map fst (publishes (cycle_calls exact scenario_env scenario_state))
              = [''sun'', ''spruce.moisture'', ''spruce.temperature''])"
proof -
  have sent: "Publish ''spruce.temperature'' 71.6 \<in> set (cycle_calls exact scenario_env scenario_state)"
    by (simp add: cycle_calls_def body_defs scenario_defs)
  have ok: "io_publish scenario_env ''spruce.temperature'' = None"
    by (simp add: scenario_defs)
  have "monotonic_end scenario_env = 103"
    by (simp add: scenario_defs)
  with last_updated_is_end_clock [OF sent ok] sent ok show ?thesis
    by simp
qed

subsection \<open>When a cycle starts\<close>

text \<open>
  Claim C3. An iteration starts a cycle (it reads the sensors, and publishes when they
  answer) exactly when the clock minus \<^verbatim>\<open>last_updated\<close> is at least 60; otherwise it
  changes nothing and calls nothing. In exact arithmetic: at 59 elapsed seconds the
  iteration is idle and publishes nothing; at exactly 60 it starts a cycle; and after a
  successful cycle an iteration is idle while the clock is less than 60 past the
  \<^verbatim>\<open>last_updated\<close> that the cycle recorded, and starts a cycle once it is 60 past it.
\<close>

theorem interval_check_decides:
  "(ReadLux \<in> set (cycle_calls A env st)
      \<longleftrightarrow> fge A (fsub A (monotonic_check env) (last_updated st)) (float_of_int A 60))
   \<and> (ReadLux \<in> set (cycle_calls exact e r) \<longleftrightarrow> monotonic_check e - last_updated r \<ge> 60)
   \<and> (ReadLux \<notin> set (cycle_calls A env st)
        \<longrightarrow> loop_body A env st = Normal st \<and> cycle_calls A env st = [])
   \<and> (ReadLux \<in> set (cycle_calls A env st) \<and> light_sensor_lux env = Inr l
        \<and> soil_moisture_read env = Inr m \<and> soil_get_temp env = Inr c
        \<longrightarrow> Publish ''sun'' (lux_to_footcandle A l) \<in> set (cycle_calls A env st))
   \<and> (monotonic_check e - last_updated r = 59
        \<longrightarrow> loop_body exact e r = Normal r \<and> publishes (cycle_calls exact e r) = [])
   \<and> (monotonic_check e - last_updated r = 60 \<longrightarrow> ReadLux \<in> set (cycle_calls exact e r))
   \<and> (Publish ''spruce.temperature'' v \<in> set (cycle_calls exact e r)
        \<and> io_publish e ''spruce.temperature'' = None
        \<longrightarrow> (let r' = state_of (loop_body exact e r) in
              (monotonic_check e' - monotonic_end e < 60
                 \<longrightarrow> loop_body exact e' r' = Normal r' \<and> cycle_calls exact e' r' = [])
            \<and> (monotonic_check e' - monotonic_end e \<ge> 60
                 \<longrightarrow> ReadLux \<in> set (cycle_calls exact e' r'))))"
proof -
  have a: "ReadLux \<in> set (cycle_calls A env st)
      \<longleftrightarrow> fge A (fsub A (monotonic_check env) (last_updated st)) (float_of_int A 60)"
    by (simp add: enters_iff interval_check_def)
  have b: "ReadLux \<in> set (cycle_calls exact e r) \<longleftrightarrow> monotonic_check e - last_updated r \<ge> 60"
    for e r
    by (simp add: enters_iff interval_check_exact)
  have c: "ReadLux \<notin> set (cycle_calls A env st)
        \<longrightarrow> loop_body A env st = Normal st \<and> cycle_calls A env st = []"
    by (simp add: enters_iff idle_iteration idle_no_calls)
  have d: "ReadLux \<in> set (cycle_calls A env st) \<and> light_sensor_lux env = Inr l
        \<and> soil_moisture_read env = Inr m \<and> soil_get_temp env = Inr c
        \<longrightarrow> Publish ''sun'' (lux_to_footcandle A l) \<in> set (cycle_calls A env st)"
    using sun_attempted [of A env st l m c] by (simp add: enters_iff)
  have e: "monotonic_check e - last_updated r = 59
        \<longrightarrow> loop_body exact e r = Normal r \<and> publishes (cycle_calls exact e r) = []"
    by (simp add: idle_iteration idle_no_calls interval_check_exact)
  have f: "monotonic_check e - last_updated r = 60 \<longrightarrow> ReadLux \<in> set (cycle_calls exact e r)"
    by (simp add: b)
  have g: "Publish ''spruce.temperature'' v \<in> set (cycle_calls exact e r)
        \<and> io_publish e ''spruce.temperature'' = None
        \<longrightarrow> (let r' = state_of (loop_body exact e r) in
              (monotonic_check e' - monotonic_end e < 60
                 \<longrightarrow> loop_body exact e' r' = Normal r' \<and> cycle_calls exact e' r' = [])
            \<and> (monotonic_check e' - monotonic_end e \<ge> 60
                 \<longrightarrow> ReadLux \<in> set (cycle_calls exact e' r')))"
  proof (intro impI, elim conjE)
    assume sent: "Publish ''spruce.temperature'' v \<in> set (cycle_calls exact e r)"
      and ok: "io_publish e ''spruce.temperature'' = None"
    from after_success [OF sent ok]
    obtain s where "loop_body exact e r = Normal s" "last_updated s = monotonic_end e"
      by auto
    then show "let r' = state_of (loop_body exact e r) in
              (monotonic_check e' - monotonic_end e < 60
                 \<longrightarrow> loop_body exact e' r' = Normal r' \<and> cycle_calls exact e' r' = [])
            \<and> (monotonic_check e' - monotonic_end e \<ge> 60
                 \<longrightarrow> ReadLux \<in> set (cycle_calls exact e' r'))"
      by (simp add: Let_def b idle_iteration idle_no_calls interval_check_exact)
  qed
  from a b c d e f g show ?thesis by blast
qed

theorem interval_check_decides_witness:
  "monotonic_check (scenario_env\<lparr>monotonic_check := 99\<rparr>) - last_updated scenario_state = 59
   \<and> loop_body exact (scenario_env\<lparr>monotonic_check := 99\<rparr>) scenario_state = Normal scenario_state
   \<and> ReadLux \<notin> set (cycle_calls exact (scenario_env\<lparr>monotonic_check := 99\<rparr>) scenario_state)
   \<and> monotonic_check scenario_env - last_updated scenario_state = 60
   \<and> ReadLux \<in> set (cycle_calls exact scenario_env scenario_state)
   \<and> Publish ''sun'' (lux_to_footcandle exact 500) \<in> set (cycle_calls exact scenario_env scenario_state)
   \<and> Publish ''spruce.temperature'' 71.6 \<in> set (cycle_calls exact scenario_env scenario_state)
   \<and> io_publish scenario_env ''spruce.temperature'' = None
   \<and> loop_body exact (scenario_env\<lparr>monotonic_check := 104\<rparr>)
        (state_of (loop_body exact scenario_env scenario_state))
      = Normal (state_of (loop_body exact scenario_env scenario_state))
   \<and> ReadLux \<in> set (cycle_calls exact (scenario_env\<lparr>monotonic_check := 163\<rparr>)
        (state_of (loop_body exact scenario_env scenario_state)))"
proof -
  have h59: "monotonic_check (scenario_env\<lparr>monotonic_check := 99\<rparr>) - last_updated scenario_state = 59"
    and h60: "monotonic_check scenario_env - last_updated scenario_state = 60"
    and sensors: "light_sensor_lux scenario_env = Inr 500" "soil_moisture_read scenario_env = Inr 1000"
      "soil_get_temp scenario_env = Inr 22"
    and ok: "io_publish scenario_env ''spruce.temperature'' = None"
    and clocks: "monotonic_check (scenario_env\<lparr>monotonic_check := 104\<rparr>) - monotonic_end scenario_env < 60"
      "monotonic_check (scenario_env\<lparr>monotonic_check := 163\<rparr>) - monotonic_end scenario_env \<ge> 60"
    by (simp_all add: scenario_defs)
  have sent: "Publish ''spruce.temperature'' 71.6 \<in> set (cycle_calls exact scenario_env scenario_state)"
    by (simp add: cycle_calls_def body_defs scenario_defs)
  note at59 = interval_check_decides [of exact "scenario_env\<lparr>monotonic_check := 99\<rparr>" scenario_state
      "scenario_env\<lparr>monotonic_check := 99\<rparr>" scenario_state]
  note at60 = interval_check_decides [of exact scenario_env scenario_state scenario_env scenario_state
      500 1000 22 "71.6" "scenario_env\<lparr>monotonic_check := 104\<rparr>"]
  note at163 = interval_check_decides [of exact scenario_env scenario_state scenario_env scenario_state
      500 1000 22 "71.6" "scenario_env\<lparr>monotonic_check := 163\<rparr>"]
  from at59 h59 have "loop_body exact (scenario_env\<lparr>monotonic_check := 99\<rparr>) scenario_state = Normal scenario_state"
    "ReadLux \<notin> set (cycle_calls exact (scenario_env\<lparr>monotonic_check := 99\<rparr>) scenario_state)"
    by (simp_all add: exact_def)
  moreover from at60 h60 sensors have "ReadLux \<in> set (cycle_calls exact scenario_env scenario_state)"
    "Publish ''sun'' (lux_to_footcandle exact 500) \<in> set (cycle_calls exact scenario_env scenario_state)"
    by (simp_all add: exact_def)
  moreover from at60 sent ok clocks have "loop_body exact (scenario_env\<lparr>monotonic_check := 104\<rparr>)
        (state_of (loop_body exact scenario_env scenario_state))
      = Normal (state_of (loop_body exact scenario_env scenario_state))"
    by (simp add: Let_def)
  moreover from at163 sent ok clocks have "ReadLux \<in> set (cycle_calls exact (scenario_env\<lparr>monotonic_check := 163\<rparr>)
        (state_of (loop_body exact scenario_env scenario_state)))"
    by (simp add: Let_def)
  ultimately show ?thesis using h59 h60 sent ok by simp
qed

subsection \<open>What is published\<close>

lemma publishes_prefix:
  assumes "light_sensor_lux env = Inr l" "soil_moisture_read env = Inr m" "soil_get_temp env = Inr c"
  shows "prefix (publishes (cycle_calls A env st))
     [(''sun'', lux_to_footcandle A l), (''spruce.moisture'', int_truediv A m 20),
      (''spruce.temperature'', cel_to_fahr A c)]"
  using assms by (cases A env st rule: cycle_cases) (auto split: pyexc.splits)

lemma publishes_all:
  assumes "interval_check A env st"
    and "light_sensor_lux env = Inr l" "soil_moisture_read env = Inr m" "soil_get_temp env = Inr c"
    and "io_publish env ''sun'' = None" "io_publish env ''spruce.moisture'' = None"
  shows "publishes (cycle_calls A env st) =
     [(''sun'', lux_to_footcandle A l), (''spruce.moisture'', int_truediv A m 20),
      (''spruce.temperature'', cel_to_fahr A c)]"
  using assms by (cases A env st rule: cycle_cases) (auto split: pyexc.splits)

text \<open>
  Claim C4. The publishes of a cycle are made in the order \<^verbatim>\<open>sun\<close>,
  \<^verbatim>\<open>spruce.moisture\<close>, \<^verbatim>\<open>spruce.temperature\<close>, with the converted light, moisture and
  temperature: the calls of any iteration are a prefix of that list, and all of it once
  the first two calls return. In exact arithmetic, for 500 lux, a raw moisture of 1000 and
  22 degrees Celsius the values are \<open>500 / 10.764\<close> (within 0.005 of 46.45), 50 and 71.6.
\<close>

theorem publish_order:
  "(light_sensor_lux env = Inr l \<and> soil_moisture_read env = Inr m \<and> soil_get_temp env = Inr c
      \<longrightarrow> prefix (publishes (cycle_calls A env st))
            [(''sun'', lux_to_footcandle A l), (''spruce.moisture'', int_truediv A m 20),
             (''spruce.temperature'', cel_to_fahr A c)])
   \<and> (ReadLux \<in> set (cycle_calls A env st)
       \<and> light_sensor_lux env = Inr l \<and> soil_moisture_read env = Inr m \<and> soil_get_temp env = Inr c
       \<and> io_publish env ''sun'' = None \<and> io_publish env ''spruce.moisture'' = None
      \<longrightarrow> publishes (cycle_calls A env st) =
            [(''sun'', lux_to_footcandle A l), (''spruce.moisture'', int_truediv A m 20),
             (''spruce.temperature'', cel_to_fahr A c)])
   \<and> (ReadLux \<in> set (cycle_calls exact e r)
       \<and> light_sensor_lux e = Inr 500 \<and> soil_moisture_read e = Inr 1000 \<and> soil_get_temp e = Inr 22
       \<and> io_publish e ''sun'' = None \<and> io_publish e ''spruce.moisture'' = None
      \<longrightarrow> publishes (cycle_calls exact e r) =
            [(''sun'', 500 / 10.764), (''spruce.moisture'', 50), (''spruce.temperature'', 71.6)])
   \<and> \<bar>500 / 10.764 - 46.45\<bar> < (0.005 :: real)"
proof -
  have "lux_to_footcandle exact 500 = 500 / 10.764" "int_truediv exact 1000 20 = 50"
    "cel_to_fahr exact 22 = 71.6"
    by (simp_all add: lux_to_footcandle_def cel_to_fahr_def exact_def)
  with publishes_prefix [of env l m c A st] publishes_all [of A env st l m c]
    publishes_all [of exact e r 500 1000 22]
  show ?thesis
    by (simp add: enters_iff)
qed

theorem publish_order_witness:
  "ReadLux \<in> set (cycle_calls exact scenario_env scenario_state)
   \<and> light_sensor_lux scenario_env = Inr 500 \<and> soil_moisture_read scenario_env = Inr 1000
   \<and> soil_get_temp scenario_env = Inr 22
   \<and> io_publish scenario_env ''sun'' = None \<and> io_publish scenario_env ''spruce.moisture'' = None
   \<and> publishes (cycle_calls exact scenario_env scenario_state) =
        [(''sun'', 500 / 10.764), (''spruce.moisture'', 50), (''spruce.temperature'', 71.6)]
   \<and> prefix (publishes (cycle_calls exact moisture_fails scenario_state))
        [(''sun'', lux_to_footcandle exact 500), (''spruce.moisture'', int_truediv exact 1000 20),
         (''spruce.temperature'', cel_to_fahr exact 22)]
   \<and> publishes (cycle_calls exact moisture_fails scenario_state) =
        [(''sun'', 500 / 10.764), (''spruce.moisture'', 50)]"
proof -
  have entered: "ReadLux \<in> set (cycle_calls exact scenario_env scenario_state)"
    by (simp add: cycle_calls_def body_defs scenario_defs)
  have answers: "light_sensor_lux scenario_env = Inr 500" "soil_moisture_read scenario_env = Inr 1000"
    "soil_get_temp scenario_env = Inr 22"
    "io_publish scenario_env ''sun'' = None" "io_publish scenario_env ''spruce.moisture'' = None"
    "light_sensor_lux moisture_fails = Inr 500" "soil_moisture_read moisture_fails = Inr 1000"
    "soil_get_temp moisture_fails = Inr 22"
    by (simp_all add: scenario_defs)
  have failing: "publishes (cycle_calls exact moisture_fails scenario_state) =
        [(''sun'', 500 / 10.764), (''spruce.moisture'', 50)]"
    by (simp add: cycle_calls_def body_defs scenario_defs)
  from publish_order [of scenario_env 500 1000 22 exact scenario_state scenario_env scenario_state]
    publish_order [of moisture_fails 500 1000 22 exact scenario_state]
    entered answers failing
  show ?thesis by simp
qed

subsection \<open>The moisture scale\<close>

lemma moisture_stored:
  assumes "MoistureRead \<in> set (cycle_calls A env st)" "soil_moisture_read env = Inr r"
  shows "plant_measurements (state_of (loop_body A env st)) ''moisture'' = Some (int_truediv A r 20)"
  using assms by (cases A env st rule: cycle_cases) (auto split: pyexc.splits option.splits)

lemma moisture_published:
  assumes "Publish ''spruce.moisture'' v \<in> set (cycle_calls A env st)" "soil_moisture_read env = Inr r"
  shows "v = int_truediv A r 20"
  using assms by (cases A env st rule: cycle_cases) (auto split: pyexc.splits option.splits)

text \<open>
  Claim C5. For every raw moisture \<open>r\<close> that the sensor returns, in the nominal range or
  not, the value stored under \<^verbatim>\<open>'moisture'\<close> and the value published on
  \<^verbatim>\<open>spruce.moisture\<close> is \<^verbatim>\<open>r / 20\<close>, with no clamping; in exact arithmetic that is
  the real number \<open>r / 20\<close>, which is 10 for 200 and 100 for 2000.
\<close>

theorem moisture_unclamped:
  "(MoistureRead \<in> set (cycle_calls A env st) \<and> soil_moisture_read env = Inr r
      \<longrightarrow> plant_measurements (state_of (loop_body A env st)) ''moisture''
            = Some (int_truediv A r 20))
   \<and> (Publish ''spruce.moisture'' v \<in> set (cycle_calls A env st) \<and> soil_moisture_read env = Inr r
      \<longrightarrow> v = int_truediv A r 20)
   \<and> int_truediv exact n 20 = real_of_int n / 20
   \<and> int_truediv exact 200 20 = 10
   \<and> int_truediv exact 2000 20 = 100"
  using moisture_stored [of A env st r] moisture_published [of v A env st r]
  by (simp add: exact_def)

theorem moisture_unclamped_witness:
  "MoistureRead \<in> set (cycle_calls exact (scenario_env\<lparr>soil_moisture_read := Inr 5000\<rparr>) scenario_state)
   \<and> Publish ''spruce.moisture'' 250
        \<in> set (cycle_calls exact (scenario_env\<lparr>soil_moisture_read := Inr 5000\<rparr>) scenario_state)
   \<and> soil_moisture_read (scenario_env\<lparr>soil_moisture_read := Inr 5000\<rparr>) = Inr 5000
   \<and> plant_measurements
        (state_of (loop_body exact (scenario_env\<lparr>soil_moisture_read := Inr 5000\<rparr>) scenario_state))
        ''moisture'' = Some 250
   \<and> int_truediv exact (- 40) 20 = - 2"
proof -
  have made: "MoistureRead \<in> set (cycle_calls exact (scenario_env\<lparr>soil_moisture_read := Inr 5000\<rparr>) scenario_state)"
    "Publish ''spruce.moisture'' 250
        \<in> set (cycle_calls exact (scenario_env\<lparr>soil_moisture_read := Inr 5000\<rparr>) scenario_state)"
    by (simp_all add: cycle_calls_def body_defs scenario_defs)
  have answer: "soil_moisture_read (scenario_env\<lparr>soil_moisture_read := Inr 5000\<rparr>) = Inr 5000"
    by simp
  from moisture_unclamped [of exact "scenario_env\<lparr>soil_moisture_read := Inr 5000\<rparr>" scenario_state
      5000 250 "- 40"] made answer
  show ?thesis by (simp add: exact_def)
qed

subsection \<open>The converters\<close>

text \<open>
  Claim C6. For every float \<open>c\<close>, \<^verbatim>\<open>cel_to_fahr\<close> returns \<open>c * 1.8 + 32\<close>: the
  product of \<open>c\<close> and the literal \<open>1.80\<close>, plus 32, in whatever float arithmetic the
  interpreter has, and the real number \<open>c * 1.8 + 32\<close> in exact arithmetic. The function
  has no error branch: it returns a float for every float.
\<close>

theorem cel_to_fahr_formula:
  "cel_to_fahr A c = fadd A (fmul A c (decimal A 180 2)) (float_of_int A 32)
   \<and> cel_to_fahr exact x = x * 1.8 + 32"
  by (simp add: cel_to_fahr_def exact_def)

text \<open>
  Claim C7. For every float \<open>l\<close> (non-negative or not), \<^verbatim>\<open>lux_to_footcandle\<close>
  returns \<open>l / 10.764\<close>: the quotient of \<open>l\<close> by the literal \<open>10.764\<close> in the
  interpreter's arithmetic, the real number \<open>l / 10.764\<close> in exact arithmetic. The
  divisor is not zero, so the division has no error.
\<close>

theorem lux_to_footcandle_formula:
  "lux_to_footcandle A l = fdiv A l (decimal A 10764 3)
   \<and> lux_to_footcandle exact x = x / 10.764
   \<and> decimal exact 10764 3 \<noteq> 0"
  by (simp add: lux_to_footcandle_def exact_def)

subsection \<open>Which exceptions are caught\<close>










subsection \<open>Startup and the whole run\<close>
















end
